theory Spec2Isabelle
  imports Main
begin

section \<open>The speech intent and slot training script\<close>

text \<open>
  The program is the single function \<open>main\<close> of
  \<^verbatim>\<open>examples/slu/speech_intent_slot/speech_intent_slot_train.py\<close>. It builds a model,
  seeds its encoder from a pretrained source (lines 87 to 117), freezes or unfreezes the
  encoder (lines 119 to 123), trains, and runs the test pass behind a gate (lines 127 to
  129). Everything it calls lives in libraries outside the repository, so the embedding
  takes the calls that reach the file system, the network or the trainer as fields of an
  environment record, and writes every call the script makes into a trace of events, in
  program order. A raise is a value of \<open>error\<close>; the model object is mutated in place
  by the script, so the outcome of a run holds the model as it stands when the run
  returns or raises.
\<close>

subsection \<open>Weights, parameters, models\<close>

type_synonym tensor = "int list"

text \<open>A weights mapping: parameter name to tensor, in order (an ordered dictionary).\<close>

type_synonym state_dict = "(string \<times> tensor) list"

text \<open>What \<^verbatim>\<open>torch.load\<close> reads from a raw checkpoint: a dictionary whose entries
  are weight mappings.\<close>

type_synonym checkpoint = "(string \<times> state_dict) list"

record parameter =
  param_name :: string
  param_data :: tensor
  requires_grad :: bool

text \<open>
  A model owns an encoder sub-module and further parameters (decoder, embedding,
  classifier). Encoder parameters are named relative to the encoder; in the model's own
  weights mapping they carry the prefix \<^verbatim>\<open>encoder.\<close>.
\<close>

record slu_model =
  encoder :: "parameter list"
  other_parameters :: "parameter list"

datatype model_cls = SpeechEncDecSelfSupervisedModel | ASRModel

datatype error =
    ValueError string
  | KeyError string
  | AttributeError string
  | RuntimeError string
  | ExternalError string

subsection \<open>Configuration\<close>

text \<open>
  The fields of the configuration that \<open>main\<close> reads. \<open>None\<close> for
  \<open>cfg_pretrained_encoder_name\<close> is Python's \<^verbatim>\<open>None\<close> (a null value in the
  configuration file).

  Line 127 reads \<^verbatim>\<open>cfg.model.test_ds\<close> in two steps, a \<^verbatim>\<open>hasattr\<close> test and then
  the attribute \<^verbatim>\<open>manifest_filepath\<close> of its value, so the model keeps every shape the
  value can have. \<open>None\<close> for \<open>cfg_model_test_ds\<close> is a model section without a
  \<^verbatim>\<open>test_ds\<close> attribute, for which \<^verbatim>\<open>hasattr\<close> is false. An attribute that is
  there holds a null value, a section that has no \<^verbatim>\<open>manifest_filepath\<close>, or a section
  with its \<^verbatim>\<open>manifest_filepath\<close> (\<open>None\<close> for a null path).
\<close>

datatype test_ds_cfg =
    TestDsNull
  | TestDsWithoutManifest
  | TestDs "string option"

record config =
  cfg_pretrained_encoder_name :: "string option"
  cfg_pretrained_encoder_freeze :: bool
  cfg_model_test_ds :: "test_ds_cfg option"

subsection \<open>The world outside the script\<close>

text \<open>
  The collaborators whose answers depend on the file system, the model registry or the
  training run. Each loader either raises (\<open>Inl\<close>) or returns what it loaded.
\<close>

record env =
  SLUIntentSlotBPEModel :: "config \<Rightarrow> slu_model"
  is_file :: "string \<Rightarrow> bool"
  torch_load :: "string \<Rightarrow> error + checkpoint"
  restore_from :: "string \<Rightarrow> error + slu_model"
  from_pretrained :: "model_cls \<Rightarrow> string \<Rightarrow> error + slu_model"
  trainer_fit :: "slu_model \<Rightarrow> error + slu_model"
  prepare_test :: "slu_model \<Rightarrow> bool"
  trainer_test :: "slu_model \<Rightarrow> error option"

text \<open>The calls of the script, as they appear in a trace, with their arguments.\<close>

datatype event =
    LogInfo string
  | PathIsFile string
  | TorchLoad string
  | RestoreFrom model_cls string
  | FromPretrained model_cls string
  | ModelLoadStateDict state_dict bool
  | EncoderLoadStateDict state_dict bool
  | DelPretraindModel
  | EncoderFreeze
  | EncoderUnfreeze
  | TrainerFit
  | PrepareTest
  | TrainerTest

record outcome =
  raised :: "error option"
  model_after :: slu_model
  events :: "event list"

definition returns :: "slu_model \<Rightarrow> event list \<Rightarrow> outcome" where
  "returns m tr = \<lparr>raised = None, model_after = m, events = tr\<rparr>"

definition raises :: "error \<Rightarrow> slu_model \<Rightarrow> event list \<Rightarrow> outcome" where
  "raises e m tr = \<lparr>raised = Some e, model_after = m, events = tr\<rparr>"

subsection \<open>Python string tests\<close>

definition startswith :: "string \<Rightarrow> string \<Rightarrow> bool" where
  "startswith s p = (take (length p) s = p)"

definition endswith :: "string \<Rightarrow> string \<Rightarrow> bool" where
  "endswith s x = (length x \<le> length s \<and> drop (length s - length x) s = x)"

subsection \<open>Weight mappings of modules\<close>

text \<open>
  Modelled from the spec: the library operations \<^verbatim>\<open>state_dict()\<close> and
  \<^verbatim>\<open>load_state_dict(mapping, strict)\<close> of a module, which are not part of this
  repository. The spec's glossary: strict loading requires exact key-set equality,
  non-strict loading tolerates missing and extra keys; its data model: keys that do not
  match the target module are ignored, matching entries are copied into the target.
\<close>

definition state_dict_of :: "string \<Rightarrow> parameter list \<Rightarrow> state_dict" where
  "state_dict_of pre ps = map (\<lambda>p. (pre @ param_name p, param_data p)) ps"

definition copy_matching :: "string \<Rightarrow> state_dict \<Rightarrow> parameter \<Rightarrow> parameter" where
  "copy_matching pre sd p =
     (case map_of sd (pre @ param_name p) of
        None \<Rightarrow> p
      | Some t \<Rightarrow> p\<lparr>param_data := t\<rparr>)"

definition encoder_state_dict :: "slu_model \<Rightarrow> state_dict" where
  "encoder_state_dict m = state_dict_of [] (encoder m)"

definition model_state_dict :: "slu_model \<Rightarrow> state_dict" where
  "model_state_dict m =
     state_dict_of ''encoder.'' (encoder m) @ state_dict_of [] (other_parameters m)"

definition key_mismatch :: "state_dict \<Rightarrow> state_dict \<Rightarrow> bool" where
  "key_mismatch own sd = (set (map fst own) \<noteq> set (map fst sd))"

definition encoder_load_state_dict ::
    "slu_model \<Rightarrow> state_dict \<Rightarrow> bool \<Rightarrow> error + slu_model" where
  "encoder_load_state_dict m sd strict =
     (if strict \<and> key_mismatch (encoder_state_dict m) sd
      then Inl (RuntimeError ''Error(s) in loading state_dict'')
      else Inr (m\<lparr>encoder := map (copy_matching [] sd) (encoder m)\<rparr>))"

definition model_load_state_dict ::
    "slu_model \<Rightarrow> state_dict \<Rightarrow> bool \<Rightarrow> error + slu_model" where
  "model_load_state_dict m sd strict =
     (if strict \<and> key_mismatch (model_state_dict m) sd
      then Inl (RuntimeError ''Error(s) in loading state_dict'')
      else Inr (m\<lparr>encoder := map (copy_matching ''encoder.'' sd) (encoder m),
                  other_parameters := map (copy_matching [] sd) (other_parameters m)\<rparr>))"

text \<open>
  Modelled from the spec: \<^verbatim>\<open>freeze()\<close> and \<^verbatim>\<open>unfreeze()\<close> of the encoder module,
  which are library code. Freezing disables gradient computation for every parameter
  of the module, unfreezing enables it for every parameter.
\<close>

definition freeze :: "parameter list \<Rightarrow> parameter list" where
  "freeze ps = map (\<lambda>p. p\<lparr>requires_grad := False\<rparr>) ps"

definition unfreeze :: "parameter list \<Rightarrow> parameter list" where
  "unfreeze ps = map (\<lambda>p. p\<lparr>requires_grad := True\<rparr>) ps"

subsection \<open>Lines 87 to 117: init encoder from pretrained model\<close>

text \<open>Lines 101 and 102, shared by both kinds of local file: apply the mapping to the
  whole model, non-strictly, then drop the intermediate model.\<close>

definition load_whole_model :: "slu_model \<Rightarrow> state_dict \<Rightarrow> event list \<Rightarrow> outcome" where
  "load_whole_model model sd tr =
     (case model_load_state_dict model sd False of
        Inl e \<Rightarrow> raises e model (tr @ [ModelLoadStateDict sd False])
      | Inr model' \<Rightarrow>
          returns model' (tr @ [ModelLoadStateDict sd False, DelPretraindModel]))"

text \<open>Lines 111 to 115, shared by both symbolic prefixes: fetch the named model through
  the chosen class and copy its encoder's mapping into the target's encoder.\<close>

definition load_encoder_from ::
    "env \<Rightarrow> model_cls \<Rightarrow> string \<Rightarrow> slu_model \<Rightarrow> event list \<Rightarrow> outcome" where
  "load_encoder_from env model_cls name model tr =
     (case from_pretrained env model_cls name of
        Inl e \<Rightarrow> raises e model (tr @ [FromPretrained model_cls name])
      | Inr pretraind_model \<Rightarrow>
          (let sd = encoder_state_dict pretraind_model;
               tr' = tr @ [FromPretrained model_cls name, EncoderLoadStateDict sd False]
           in case encoder_load_state_dict model sd False of
                Inl e \<Rightarrow> raises e model tr'
              | Inr model' \<Rightarrow> returns model' (tr' @ [DelPretraindModel])))"

definition init_encoder :: "env \<Rightarrow> string option \<Rightarrow> slu_model \<Rightarrow> outcome" where
  "init_encoder env pretrained_encoder_name model =
     (case pretrained_encoder_name of
        None \<Rightarrow> returns model [LogInfo ''Not using pretrained encoder.'']
      | Some name \<Rightarrow>
          if is_file env name then
            if \<not> endswith name ''.nemo'' then
              (let tr = [PathIsFile name,
                         LogInfo (''Loading encoder from PyTorch Lightning checkpoint: '' @ name),
                         TorchLoad name]
               in case torch_load env name of
                    Inl e \<Rightarrow> raises e model tr
                  | Inr ckpt \<Rightarrow>
                      (case map_of ckpt ''state_dict'' of
                         None \<Rightarrow> raises (KeyError ''state_dict'') model tr
                       | Some sd \<Rightarrow> load_whole_model model sd tr))
            else
              (let tr = [PathIsFile name,
                         LogInfo (''Loading pretrained encoder from NeMo file: '' @ name),
                         RestoreFrom ASRModel name]
               in case restore_from env name of
                    Inl e \<Rightarrow> raises e model tr
                  | Inr pretraind_model \<Rightarrow>
                      load_whole_model model (model_state_dict pretraind_model) tr)
          else
            (let tr = [PathIsFile name,
                       LogInfo (''Loading pretrained encoder from NGC: '' @ name)]
             in if startswith name ''ssl_'' then
                  load_encoder_from env SpeechEncDecSelfSupervisedModel name model tr
                else if startswith name ''stt_'' then
                  load_encoder_from env ASRModel name model tr
                else
                  raises (ValueError (''Unknown pretrained encoder: '' @ name)) model tr))"

subsection \<open>Lines 119 to 123: the freeze policy\<close>

definition freeze_policy :: "bool \<Rightarrow> slu_model \<Rightarrow> outcome" where
  "freeze_policy flag model =
     (if flag then
        returns (model\<lparr>encoder := freeze (encoder model)\<rparr>)
          [LogInfo ''Freezing encoder...'', EncoderFreeze]
      else
        returns (model\<lparr>encoder := unfreeze (encoder model)\<rparr>) [EncoderUnfreeze])"

subsection \<open>Lines 127 to 129: the gated test pass\<close>

text \<open>
  The condition of line 127. \<^verbatim>\<open>hasattr\<close> is false for a missing attribute and the
  conjunction stops there. Otherwise \<^verbatim>\<open>cfg.model.test_ds.manifest_filepath\<close> is
  evaluated: on a null \<^verbatim>\<open>test_ds\<close> and on a section without that attribute the access
  raises \<^verbatim>\<open>AttributeError\<close>; on a section that has it, the value is compared with
  \<^verbatim>\<open>None\<close>.
\<close>

definition test_gate :: "config \<Rightarrow> error + bool" where
  "test_gate cfg =
     (case cfg_model_test_ds cfg of
        None \<Rightarrow> Inr False
      | Some TestDsNull \<Rightarrow> Inl (AttributeError ''manifest_filepath'')
      | Some TestDsWithoutManifest \<Rightarrow> Inl (AttributeError ''manifest_filepath'')
      | Some (TestDs manifest_filepath) \<Rightarrow> Inr (manifest_filepath \<noteq> None))"

definition test_phase :: "env \<Rightarrow> config \<Rightarrow> slu_model \<Rightarrow> outcome" where
  "test_phase env cfg model =
     (case test_gate cfg of
        Inl e \<Rightarrow> raises e model []
      | Inr gate \<Rightarrow>
          if gate then
            if prepare_test env model then
              (case trainer_test env model of
                 None \<Rightarrow> returns model [PrepareTest, TrainerTest]
               | Some e \<Rightarrow> raises e model [PrepareTest, TrainerTest])
            else returns model [PrepareTest]
          else returns model [])"

subsection \<open>The whole of \<open>main\<close>\<close>

text \<open>Sequencing: a step that raised ends the run; otherwise the next step runs on the
  model the step left, and the traces are joined.\<close>

definition and_then :: "outcome \<Rightarrow> (slu_model \<Rightarrow> outcome) \<Rightarrow> outcome" where
  "and_then r f =
     (case raised r of
        Some e \<Rightarrow> r
      | None \<Rightarrow>
          (let r' = f (model_after r) in r'\<lparr>events := events r @ events r'\<rparr>))"

text \<open>Lines 79 to 123: the model as it is handed to the trainer.\<close>

definition setup_model :: "env \<Rightarrow> config \<Rightarrow> outcome" where
  "setup_model env cfg =
     and_then
       (init_encoder env (cfg_pretrained_encoder_name cfg) (SLUIntentSlotBPEModel env cfg))
       (freeze_policy (cfg_pretrained_encoder_freeze cfg))"

definition fit :: "env \<Rightarrow> slu_model \<Rightarrow> outcome" where
  "fit env model =
     (case trainer_fit env model of
        Inl e \<Rightarrow> raises e model [TrainerFit]
      | Inr model' \<Rightarrow> returns model' [TrainerFit])"

text \<open>Lines 79 to 125: the run up to the end of training.\<close>

definition train :: "env \<Rightarrow> config \<Rightarrow> outcome" where
  "train env cfg = and_then (setup_model env cfg) (fit env)"

definition main :: "env \<Rightarrow> config \<Rightarrow> outcome" where
  "main env cfg = and_then (train env cfg) (test_phase env cfg)"

subsection \<open>Reading a trace\<close>

text \<open>Events that reach the file system or the network.\<close>

fun is_io :: "event \<Rightarrow> bool" where
  "is_io (PathIsFile p) = True"
| "is_io (TorchLoad p) = True"
| "is_io (RestoreFrom c p) = True"
| "is_io (FromPretrained c n) = True"
| "is_io ev = False"

text \<open>Events that load a checkpoint, download a model or write weights into the target.\<close>

fun is_load :: "event \<Rightarrow> bool" where
  "is_load (TorchLoad p) = True"
| "is_load (RestoreFrom c p) = True"
| "is_load (FromPretrained c n) = True"
| "is_load (ModelLoadStateDict sd strict) = True"
| "is_load (EncoderLoadStateDict sd strict) = True"
| "is_load ev = False"

text \<open>The resolver did nothing to the encoder: it returned, the encoder's parameters are
  the ones it was given, and the trace holds no file or network access.\<close>

definition encoder_untouched :: "env \<Rightarrow> string option \<Rightarrow> slu_model \<Rightarrow> bool" where
  "encoder_untouched env pretrained_encoder_name model =
     (let r = init_encoder env pretrained_encoder_name model
      in raised r = None \<and> encoder (model_after r) = encoder model
         \<and> \<not> list_ex is_io (events r))"

subsection \<open>The conditions in the spec's words\<close>

text \<open>The spec's first branch: the pretrained reference is empty or absent.\<close>

definition spec_empty_or_absent :: "string option \<Rightarrow> bool" where
  "spec_empty_or_absent pretrained_ref = (pretrained_ref = None \<or> pretrained_ref = Some [])"

text \<open>The spec's first two gating conditions: the configuration exposes a test-dataset
  section, and that section's manifest path is non-empty.\<close>

definition spec_test_ds_non_empty :: "config \<Rightarrow> bool" where
  "spec_test_ds_non_empty cfg =
     (case cfg_model_test_ds cfg of
        Some (TestDs (Some path)) \<Rightarrow> path \<noteq> []
      | _ \<Rightarrow> False)"

subsection \<open>A small world to run the script in\<close>

definition fresh_model :: slu_model where
  "fresh_model =
     \<lparr>encoder = [\<lparr>param_name = ''pre_encode.weight'', param_data = [0, 0], requires_grad = True\<rparr>],
      other_parameters = [\<lparr>param_name = ''decoder.weight'', param_data = [0], requires_grad = True\<rparr>]\<rparr>"

definition zoo_model :: slu_model where
  "zoo_model =
     \<lparr>encoder = [\<lparr>param_name = ''pre_encode.weight'', param_data = [3, 4], requires_grad = True\<rparr>],
      other_parameters = [\<lparr>param_name = ''decoder.weight'', param_data = [5], requires_grad = True\<rparr>]\<rparr>"

text \<open>
  Three local files: a raw checkpoint with a \<^verbatim>\<open>state_dict\<close> entry, a raw checkpoint
  without one, and a native archive. Every symbolic name is in the registry. Training
  returns the model as it is, and the model is ready for testing.
\<close>

definition world :: env where
  "world =
     \<lparr>SLUIntentSlotBPEModel = (\<lambda>cfg. fresh_model),
      is_file = (\<lambda>p. p \<in> {''enc.ckpt'', ''bare.ckpt'', ''enc.nemo''}),
      torch_load = (\<lambda>p.
         if p = ''enc.ckpt'' then Inr [(''epoch'', []), (''state_dict'', model_state_dict zoo_model)]
         else if p = ''bare.ckpt'' then Inr [(''epoch'', [])]
         else Inl (ExternalError ''FileNotReadable'')),
      restore_from = (\<lambda>p.
         if p = ''enc.nemo'' then Inr zoo_model else Inl (ExternalError ''FileNotReadable'')),
      from_pretrained = (\<lambda>c n. Inr zoo_model),
      trainer_fit = (\<lambda>m. Inr m),
      prepare_test = (\<lambda>m. True),
      trainer_test = (\<lambda>m. None)\<rparr>"

definition cfg_with :: "string option \<Rightarrow> bool \<Rightarrow> test_ds_cfg option \<Rightarrow> config" where
  "cfg_with n f t =
     \<lparr>cfg_pretrained_encoder_name = n, cfg_pretrained_encoder_freeze = f, cfg_model_test_ds = t\<rparr>"

section \<open>Facts about the building blocks\<close>

text \<open>A non-strict load never raises: it copies the entries whose names match and
  leaves every other parameter as it is.\<close>

lemma model_load_nonstrict:
  "model_load_state_dict m sd False =
     Inr (m\<lparr>encoder := map (copy_matching ''encoder.'' sd) (encoder m),
            other_parameters := map (copy_matching [] sd) (other_parameters m)\<rparr>)"
  by (simp add: model_load_state_dict_def)

lemma encoder_load_nonstrict:
  "encoder_load_state_dict m sd False =
     Inr (m\<lparr>encoder := map (copy_matching [] sd) (encoder m)\<rparr>)"
  by (simp add: encoder_load_state_dict_def)

lemma load_whole_model_result:
  "load_whole_model m sd tr =
     returns (m\<lparr>encoder := map (copy_matching ''encoder.'' sd) (encoder m),
                other_parameters := map (copy_matching [] sd) (other_parameters m)\<rparr>)
       (tr @ [ModelLoadStateDict sd False, DelPretraindModel])"
  by (simp add: load_whole_model_def model_load_nonstrict)

lemma load_encoder_from_result:
  "from_pretrained env c name = Inr pm \<Longrightarrow>
   load_encoder_from env c name m tr =
     returns (m\<lparr>encoder := map (copy_matching [] (encoder_state_dict pm)) (encoder m)\<rparr>)
       (tr @ [FromPretrained c name, EncoderLoadStateDict (encoder_state_dict pm) False,
              DelPretraindModel])"
  by (simp add: load_encoder_from_def encoder_load_nonstrict Let_def)

lemma stt_not_ssl: "startswith name ''stt_'' \<Longrightarrow> \<not> startswith name ''ssl_''"
  by (auto simp: startswith_def)

lemma copy_matching_requires_grad [simp]:
  "requires_grad (copy_matching pre sd p) = requires_grad p"
  by (simp add: copy_matching_def split: option.splits)

lemma TrainerTest_not_in_load_whole:
  "TrainerTest \<notin> set tr \<Longrightarrow> TrainerTest \<notin> set (events (load_whole_model m sd tr))"
  by (simp add: load_whole_model_result returns_def)

lemma TrainerTest_not_in_load_encoder:
  "TrainerTest \<notin> set tr \<Longrightarrow> TrainerTest \<notin> set (events (load_encoder_from env c n m tr))"
  by (simp add: load_encoder_from_def encoder_load_nonstrict Let_def returns_def raises_def
      split: sum.splits)

lemma TrainerTest_not_in_init_encoder:
  "TrainerTest \<notin> set (events (init_encoder env n m))"
  by (simp add: init_encoder_def Let_def returns_def raises_def
      TrainerTest_not_in_load_whole TrainerTest_not_in_load_encoder
      split: option.splits sum.splits)

lemma TrainerTest_not_in_freeze_policy:
  "TrainerTest \<notin> set (events (freeze_policy f m))"
  by (simp add: freeze_policy_def returns_def)

lemma TrainerTest_not_in_fit: "TrainerTest \<notin> set (events (fit env m))"
  by (simp add: fit_def returns_def raises_def split: sum.splits)

lemma events_and_then:
  "events (and_then r f) =
     (case raised r of Some e \<Rightarrow> events r | None \<Rightarrow> events r @ events (f (model_after r)))"
  by (simp add: and_then_def Let_def split: option.splits)

lemma raised_and_then:
  "raised (and_then r f) =
     (case raised r of Some e \<Rightarrow> Some e | None \<Rightarrow> raised (f (model_after r)))"
  by (simp add: and_then_def Let_def split: option.splits)

lemma model_after_and_then:
  "model_after (and_then r f) =
     (case raised r of Some e \<Rightarrow> model_after r | None \<Rightarrow> model_after (f (model_after r)))"
  by (simp add: and_then_def Let_def split: option.splits)

lemma TrainerTest_not_in_train: "TrainerTest \<notin> set (events (train env cfg))"
  by (simp add: train_def setup_model_def events_and_then raised_and_then
      TrainerTest_not_in_init_encoder TrainerTest_not_in_freeze_policy TrainerTest_not_in_fit
      split: option.splits)

lemma test_gate_open:
  "(test_gate cfg = Inr True) = (\<exists>path. cfg_model_test_ds cfg = Some (TestDs (Some path)))"
  by (auto simp: test_gate_def split: option.splits test_ds_cfg.splits)

lemma test_gate_closed:
  "(test_gate cfg = Inr False) =
     (cfg_model_test_ds cfg = None \<or> cfg_model_test_ds cfg = Some (TestDs None))"
  by (auto simp: test_gate_def split: option.splits test_ds_cfg.splits)

lemma test_gate_raises:
  "(test_gate cfg = Inl e) =
     ((cfg_model_test_ds cfg = Some TestDsNull \<or> cfg_model_test_ds cfg = Some TestDsWithoutManifest)
      \<and> e = AttributeError ''manifest_filepath'')"
  by (auto simp: test_gate_def split: option.splits test_ds_cfg.splits)

lemma test_phase_events:
  "(TrainerTest \<in> set (events (test_phase env cfg m))) =
     (test_gate cfg = Inr True \<and> prepare_test env m)"
  by (simp add: test_phase_def returns_def raises_def split: option.splits sum.splits)

lemma test_phase_skipped:
  "test_gate cfg = Inr False \<or> (test_gate cfg = Inr True \<and> \<not> prepare_test env m) \<Longrightarrow>
   raised (test_phase env cfg m) = None \<and> model_after (test_phase env cfg m) = m"
  by (auto simp: test_phase_def returns_def)

text \<open>A \<^verbatim>\<open>test_ds\<close> that is there but is null, or is a section without a manifest path,
  makes the condition of line 127 raise: the run ends with that error, and neither
  \<^verbatim>\<open>prepare_test\<close> nor the test pass is called.\<close>

lemma test_phase_raises_on_unreadable_section:
  "cfg_model_test_ds cfg = Some TestDsNull \<or> cfg_model_test_ds cfg = Some TestDsWithoutManifest \<Longrightarrow>
   test_phase env cfg m = raises (AttributeError ''manifest_filepath'') m []"
  by (auto simp: test_phase_def test_gate_def)

lemma setup_model_after_init:
  assumes "raised (init_encoder env (cfg_pretrained_encoder_name cfg) (SLUIntentSlotBPEModel env cfg)) = None"
  shows "setup_model env cfg =
           (let r = init_encoder env (cfg_pretrained_encoder_name cfg) (SLUIntentSlotBPEModel env cfg);
                r' = freeze_policy (cfg_pretrained_encoder_freeze cfg) (model_after r)
            in r'\<lparr>events := events r @ events r'\<rparr>)"
  using assms by (simp add: setup_model_def and_then_def Let_def)

section \<open>The claims\<close>

text \<open>
  Claim C1, as the code has it. When training has completed, \<open>main\<close> invokes the
  trainer's test on the model exactly when the model section has a \<^verbatim>\<open>test_ds\<close>
  section with a manifest path that is not \<^verbatim>\<open>None\<close>, and \<^verbatim>\<open>prepare_test\<close> returns
  true for the trained model. The condition on the path is a test against \<^verbatim>\<open>None\<close>: a
  manifest path that is the empty string passes it. When the \<^verbatim>\<open>test_ds\<close> attribute is
  missing, or the manifest path is \<^verbatim>\<open>None\<close>, or \<^verbatim>\<open>prepare_test\<close> returns false, the
  run ends without an error and without the test call.
\<close>

theorem test_phase_runs_iff_gate:
  assumes "raised (train env cfg) = None"
  shows "((TrainerTest \<in> set (events (main env cfg))) =
            ((\<exists>path. cfg_model_test_ds cfg = Some (TestDs (Some path)))
             \<and> prepare_test env (model_after (train env cfg))))
         \<and> (cfg_model_test_ds cfg = None
             \<or> cfg_model_test_ds cfg = Some (TestDs None)
             \<or> ((\<exists>path. cfg_model_test_ds cfg = Some (TestDs (Some path)))
                 \<and> \<not> prepare_test env (model_after (train env cfg)))
            \<longrightarrow> raised (main env cfg) = None \<and> TrainerTest \<notin> set (events (main env cfg)))"
proof -
  let ?m = "model_after (train env cfg)"
  have ev: "events (main env cfg) = events (train env cfg) @ events (test_phase env cfg ?m)"
    using assms by (simp add: main_def events_and_then)
  have ra: "raised (main env cfg) = raised (test_phase env cfg ?m)"
    using assms by (simp add: main_def raised_and_then)
  have runs: "(TrainerTest \<in> set (events (main env cfg))) =
                (test_gate cfg = Inr True \<and> prepare_test env ?m)"
    by (simp add: ev TrainerTest_not_in_train test_phase_events)
  have skips: "raised (main env cfg) = None"
    if "test_gate cfg = Inr False \<or> (test_gate cfg = Inr True \<and> \<not> prepare_test env ?m)"
    using that ra test_phase_skipped [of cfg env ?m] by simp
  show ?thesis
  proof (intro conjI impI)
    show "(TrainerTest \<in> set (events (main env cfg))) =
            ((\<exists>path. cfg_model_test_ds cfg = Some (TestDs (Some path))) \<and> prepare_test env ?m)"
      by (simp add: runs test_gate_open)
  next
    assume skip: "cfg_model_test_ds cfg = None
             \<or> cfg_model_test_ds cfg = Some (TestDs None)
             \<or> ((\<exists>path. cfg_model_test_ds cfg = Some (TestDs (Some path)))
                 \<and> \<not> prepare_test env ?m)"
    then have g: "test_gate cfg = Inr False \<or> (test_gate cfg = Inr True \<and> \<not> prepare_test env ?m)"
      by (simp add: test_gate_open test_gate_closed)
    from skips [OF g] show "raised (main env cfg) = None" .
    from g show "TrainerTest \<notin> set (events (main env cfg))"
      by (auto simp: runs)
  qed
qed

text \<open>Three runs in the small world: a missing \<^verbatim>\<open>test_ds\<close> attribute and a manifest path
  of \<^verbatim>\<open>None\<close> skip the test pass without an error, a manifest path that names a file
  runs it.\<close>

theorem test_phase_runs_iff_gate_witness:
  "raised (train world (cfg_with None False None)) = None
   \<and> TrainerTest \<notin> set (events (main world (cfg_with None False None)))
   \<and> raised (main world (cfg_with None False None)) = None
   \<and> raised (train world (cfg_with None False (Some (TestDs None)))) = None
   \<and> TrainerTest \<notin> set (events (main world (cfg_with None False (Some (TestDs None)))))
   \<and> raised (main world (cfg_with None False (Some (TestDs None)))) = None
   \<and> raised (train world (cfg_with None False (Some (TestDs (Some ''test.json''))))) = None
   \<and> TrainerTest
       \<in> set (events (main world (cfg_with None False (Some (TestDs (Some ''test.json''))))))"
proof -
  have trained: "raised (train world (cfg_with None False t)) = None" for t
    by (simp add: train_def setup_model_def raised_and_then model_after_and_then init_encoder_def
        freeze_policy_def fit_def returns_def world_def cfg_with_def)
  have shape: "cfg_model_test_ds (cfg_with None False t) = t" for t
    by (simp add: cfg_with_def)
  have ready: "prepare_test world m" for m
    by (simp add: world_def)
  show ?thesis
    using trained ready
      test_phase_runs_iff_gate [OF trained [of None]]
      test_phase_runs_iff_gate [OF trained [of "Some (TestDs None)"]]
      test_phase_runs_iff_gate [OF trained [of "Some (TestDs (Some ''test.json''))"]]
    by (simp add: shape)
qed

text \<open>
  The gate in the spec's words, with the manifest path required to be non-empty, is not
  what the code tests: for a configuration whose manifest path is the empty string the
  test pass runs.
\<close>

theorem empty_manifest_counterexample:
  "\<not> ((TrainerTest \<in> set (events (main world (cfg_with None False (Some (TestDs (Some [])))))))
        = (spec_test_ds_non_empty (cfg_with None False (Some (TestDs (Some []))))
           \<and> prepare_test world
               (model_after (train world (cfg_with None False (Some (TestDs (Some []))))))))"
  by (simp add: main_def train_def setup_model_def and_then_def init_encoder_def freeze_policy_def
      fit_def test_phase_def test_gate_def spec_test_ds_non_empty_def returns_def world_def
      cfg_with_def Let_def)

text \<open>
  Claim C2, as the code has it. When \<^verbatim>\<open>pretrained_encoder.name\<close> is \<^verbatim>\<open>None\<close>, the
  resolver returns without an error, the model (and so its encoder) is the one it was
  given, and the only event is the log line: no file is probed or read and nothing is
  downloaded.
\<close>

theorem no_pretrained_source_leaves_model:
  "encoder_untouched env None m
   \<and> init_encoder env None m = returns m [LogInfo ''Not using pretrained encoder.'']"
  by (simp add: encoder_untouched_def init_encoder_def returns_def)

text \<open>
  The spec's first branch covers the empty string as well as the absent name. For the
  empty string the resolver probes the file system and raises instead of returning.
\<close>

theorem empty_name_counterexample:
  "spec_empty_or_absent (Some [])
   \<and> \<not> encoder_untouched world (Some []) fresh_model
   \<and> raised (init_encoder world (Some []) fresh_model)
       = Some (ValueError ''Unknown pretrained encoder: '')
   \<and> list_ex is_io (events (init_encoder world (Some []) fresh_model))"
  by (simp add: spec_empty_or_absent_def encoder_untouched_def init_encoder_def raises_def
      startswith_def world_def Let_def)

text \<open>
  Claim C3. A name that is not an existing local file and starts with neither
  \<^verbatim>\<open>ssl_\<close> nor \<^verbatim>\<open>stt_\<close> makes the resolver raise the \<^verbatim>\<open>ValueError\<close> that carries
  the name (the spec's UnknownEncoderKind). The trace up to the raise holds no
  checkpoint load, no download and no weight application, and the model is unchanged.
\<close>

theorem unknown_encoder_raises:
  assumes "\<not> is_file env name"
    and "\<not> startswith name ''ssl_''"
    and "\<not> startswith name ''stt_''"
  shows "raised (init_encoder env (Some name) m)
           = Some (ValueError (''Unknown pretrained encoder: '' @ name))
         \<and> \<not> list_ex is_load (events (init_encoder env (Some name) m))
         \<and> model_after (init_encoder env (Some name) m) = m"
  using assms by (simp add: init_encoder_def raises_def Let_def)

theorem unknown_encoder_raises_witness:
  "raised (init_encoder world (Some ''wav2vec'') fresh_model)
     = Some (ValueError ''Unknown pretrained encoder: wav2vec'')
   \<and> \<not> list_ex is_load (events (init_encoder world (Some ''wav2vec'') fresh_model))
   \<and> model_after (init_encoder world (Some ''wav2vec'') fresh_model) = fresh_model"
proof -
  have a: "\<not> is_file world ''wav2vec''" by (simp add: world_def)
  have b: "\<not> startswith ''wav2vec'' ''ssl_''" by (simp add: startswith_def)
  have c: "\<not> startswith ''wav2vec'' ''stt_''" by (simp add: startswith_def)
  show ?thesis
    using unknown_encoder_raises [OF a b c, of fresh_model] by simp
qed

text \<open>
  Claim C4. For an existing local file whose name does not end in \<^verbatim>\<open>.nemo\<close>, the
  resolver calls \<^verbatim>\<open>torch.load\<close> on it, takes the entry keyed \<^verbatim>\<open>state_dict\<close> of the
  dictionary it gets, and hands that mapping to the whole model's
  \<^verbatim>\<open>load_state_dict\<close> with \<^verbatim>\<open>strict=False\<close>: the encoder's parameters and the
  other parameters are both targets of the copy.
\<close>

theorem raw_checkpoint_loads_whole_model:
  assumes "is_file env name"
    and "\<not> endswith name ''.nemo''"
    and "torch_load env name = Inr ckpt"
    and "map_of ckpt ''state_dict'' = Some sd"
  shows "raised (init_encoder env (Some name) m) = None
         \<and> events (init_encoder env (Some name) m)
             = [PathIsFile name,
                LogInfo (''Loading encoder from PyTorch Lightning checkpoint: '' @ name),
                TorchLoad name, ModelLoadStateDict sd False, DelPretraindModel]
         \<and> model_load_state_dict m sd False = Inr (model_after (init_encoder env (Some name) m))
         \<and> encoder (model_after (init_encoder env (Some name) m))
             = map (copy_matching ''encoder.'' sd) (encoder m)
         \<and> other_parameters (model_after (init_encoder env (Some name) m))
             = map (copy_matching [] sd) (other_parameters m)"
  using assms
  by (simp add: init_encoder_def Let_def load_whole_model_result model_load_nonstrict returns_def)

theorem raw_checkpoint_loads_whole_model_witness:
  "events (init_encoder world (Some ''enc.ckpt'') fresh_model)
     = [PathIsFile ''enc.ckpt'',
        LogInfo ''Loading encoder from PyTorch Lightning checkpoint: enc.ckpt'',
        TorchLoad ''enc.ckpt'',
        ModelLoadStateDict
          [(''encoder.pre_encode.weight'', [3, 4]), (''decoder.weight'', [5])] False,
        DelPretraindModel]
   \<and> map param_data (encoder (model_after (init_encoder world (Some ''enc.ckpt'') fresh_model)))
       = [[3, 4]]
   \<and> map param_data
         (other_parameters (model_after (init_encoder world (Some ''enc.ckpt'') fresh_model)))
       = [[5]]"
proof -
  let ?sd = "[(''encoder.pre_encode.weight'', [3, 4]), (''decoder.weight'', [5])] :: state_dict"
  let ?ckpt = "[(''epoch'', []), (''state_dict'', ?sd)] :: checkpoint"
  have a: "is_file world ''enc.ckpt''" by (simp add: world_def)
  have b: "\<not> endswith ''enc.ckpt'' ''.nemo''" by (simp add: endswith_def)
  have c: "torch_load world ''enc.ckpt'' = Inr ?ckpt"
    by (simp add: world_def model_state_dict_def state_dict_of_def zoo_model_def)
  have d: "map_of ?ckpt ''state_dict'' = Some ?sd" by simp
  show ?thesis
    using raw_checkpoint_loads_whole_model [OF a b c d, of fresh_model]
    by (simp add: fresh_model_def copy_matching_def)
qed

text \<open>
  Claim C5. For an existing local file whose name ends in \<^verbatim>\<open>.nemo\<close>, the resolver
  restores a model from the archive through \<^verbatim>\<open>ASRModel.restore_from\<close>, takes that
  model's full weights mapping, applies it to the whole target model with
  \<^verbatim>\<open>strict=False\<close>, and deletes the restored model afterwards (the last event).
\<close>

theorem nemo_archive_loads_whole_model:
  assumes "is_file env name"
    and "endswith name ''.nemo''"
    and "restore_from env name = Inr pretraind_model"
  shows "raised (init_encoder env (Some name) m) = None
         \<and> events (init_encoder env (Some name) m)
             = [PathIsFile name,
                LogInfo (''Loading pretrained encoder from NeMo file: '' @ name),
                RestoreFrom ASRModel name,
                ModelLoadStateDict (model_state_dict pretraind_model) False,
                DelPretraindModel]
         \<and> model_load_state_dict m (model_state_dict pretraind_model) False
             = Inr (model_after (init_encoder env (Some name) m))
         \<and> encoder (model_after (init_encoder env (Some name) m))
             = map (copy_matching ''encoder.'' (model_state_dict pretraind_model)) (encoder m)
         \<and> other_parameters (model_after (init_encoder env (Some name) m))
             = map (copy_matching [] (model_state_dict pretraind_model)) (other_parameters m)"
  using assms
  by (simp add: init_encoder_def Let_def load_whole_model_result model_load_nonstrict returns_def)

theorem nemo_archive_loads_whole_model_witness:
  "events (init_encoder world (Some ''enc.nemo'') fresh_model)
     = [PathIsFile ''enc.nemo'',
        LogInfo ''Loading pretrained encoder from NeMo file: enc.nemo'',
        RestoreFrom ASRModel ''enc.nemo'',
        ModelLoadStateDict
          [(''encoder.pre_encode.weight'', [3, 4]), (''decoder.weight'', [5])] False,
        DelPretraindModel]
   \<and> map param_data (encoder (model_after (init_encoder world (Some ''enc.nemo'') fresh_model)))
       = [[3, 4]]
   \<and> map param_data
         (other_parameters (model_after (init_encoder world (Some ''enc.nemo'') fresh_model)))
       = [[5]]"
proof -
  have a: "is_file world ''enc.nemo''" by (simp add: world_def)
  have b: "endswith ''enc.nemo'' ''.nemo''" by (simp add: endswith_def)
  have c: "restore_from world ''enc.nemo'' = Inr zoo_model" by (simp add: world_def)
  show ?thesis
    using nemo_archive_loads_whole_model [OF a b c, of fresh_model]
    by (simp add: fresh_model_def zoo_model_def copy_matching_def model_state_dict_def
        state_dict_of_def)
qed

text \<open>
  Claim C6. For a name that is not an existing local file and starts with
  \<^verbatim>\<open>ssl_\<close>, the resolver fetches the named model through
  \<^verbatim>\<open>SpeechEncDecSelfSupervisedModel.from_pretrained\<close> and loads that model's encoder
  mapping into the target's encoder with \<^verbatim>\<open>strict=False\<close>. The target's other
  parameters are as they were.
\<close>

theorem ssl_name_copies_encoder_only:
  assumes "\<not> is_file env name"
    and "startswith name ''ssl_''"
    and "from_pretrained env SpeechEncDecSelfSupervisedModel name = Inr pretraind_model"
  shows "raised (init_encoder env (Some name) m) = None
         \<and> events (init_encoder env (Some name) m)
             = [PathIsFile name,
                LogInfo (''Loading pretrained encoder from NGC: '' @ name),
                FromPretrained SpeechEncDecSelfSupervisedModel name,
                EncoderLoadStateDict (encoder_state_dict pretraind_model) False,
                DelPretraindModel]
         \<and> encoder_load_state_dict m (encoder_state_dict pretraind_model) False
             = Inr (model_after (init_encoder env (Some name) m))
         \<and> encoder (model_after (init_encoder env (Some name) m))
             = map (copy_matching [] (encoder_state_dict pretraind_model)) (encoder m)
         \<and> other_parameters (model_after (init_encoder env (Some name) m)) = other_parameters m"
  using assms
  by (simp add: init_encoder_def Let_def load_encoder_from_result encoder_load_nonstrict
      returns_def)

theorem ssl_name_copies_encoder_only_witness:
  "events (init_encoder world (Some ''ssl_en_conformer_large'') fresh_model)
     = [PathIsFile ''ssl_en_conformer_large'',
        LogInfo ''Loading pretrained encoder from NGC: ssl_en_conformer_large'',
        FromPretrained SpeechEncDecSelfSupervisedModel ''ssl_en_conformer_large'',
        EncoderLoadStateDict [(''pre_encode.weight'', [3, 4])] False,
        DelPretraindModel]
   \<and> map param_data
         (encoder (model_after (init_encoder world (Some ''ssl_en_conformer_large'') fresh_model)))
       = [[3, 4]]
   \<and> other_parameters (model_after (init_encoder world (Some ''ssl_en_conformer_large'') fresh_model))
       = other_parameters fresh_model"
proof -
  have a: "\<not> is_file world ''ssl_en_conformer_large''" by (simp add: world_def)
  have b: "startswith ''ssl_en_conformer_large'' ''ssl_''" by (simp add: startswith_def)
  have c: "from_pretrained world SpeechEncDecSelfSupervisedModel ''ssl_en_conformer_large''
             = Inr zoo_model"
    by (simp add: world_def)
  show ?thesis
    using ssl_name_copies_encoder_only [OF a b c, of fresh_model]
    by (simp add: fresh_model_def zoo_model_def copy_matching_def encoder_state_dict_def
        state_dict_of_def)
qed

text \<open>
  Claim C7. For a name that is not an existing local file and starts with
  \<^verbatim>\<open>stt_\<close>, the resolver fetches the named model through
  \<^verbatim>\<open>ASRModel.from_pretrained\<close> and loads that model's encoder mapping into the
  target's encoder with \<^verbatim>\<open>strict=False\<close>. The target's other parameters are as
  they were.
\<close>

theorem stt_name_copies_encoder_only:
  assumes "\<not> is_file env name"
    and "startswith name ''stt_''"
    and "from_pretrained env ASRModel name = Inr pretraind_model"
  shows "raised (init_encoder env (Some name) m) = None
         \<and> events (init_encoder env (Some name) m)
             = [PathIsFile name,
                LogInfo (''Loading pretrained encoder from NGC: '' @ name),
                FromPretrained ASRModel name,
                EncoderLoadStateDict (encoder_state_dict pretraind_model) False,
                DelPretraindModel]
         \<and> encoder_load_state_dict m (encoder_state_dict pretraind_model) False
             = Inr (model_after (init_encoder env (Some name) m))
         \<and> encoder (model_after (init_encoder env (Some name) m))
             = map (copy_matching [] (encoder_state_dict pretraind_model)) (encoder m)
         \<and> other_parameters (model_after (init_encoder env (Some name) m)) = other_parameters m"
  using assms stt_not_ssl [of name]
  by (simp add: init_encoder_def Let_def load_encoder_from_result encoder_load_nonstrict
      returns_def)

theorem stt_name_copies_encoder_only_witness:
  "events (init_encoder world (Some ''stt_en_conformer_ctc_large'') fresh_model)
     = [PathIsFile ''stt_en_conformer_ctc_large'',
        LogInfo ''Loading pretrained encoder from NGC: stt_en_conformer_ctc_large'',
        FromPretrained ASRModel ''stt_en_conformer_ctc_large'',
        EncoderLoadStateDict [(''pre_encode.weight'', [3, 4])] False,
        DelPretraindModel]
   \<and> map param_data
         (encoder (model_after (init_encoder world (Some ''stt_en_conformer_ctc_large'') fresh_model)))
       = [[3, 4]]
   \<and> other_parameters
         (model_after (init_encoder world (Some ''stt_en_conformer_ctc_large'') fresh_model))
       = other_parameters fresh_model"
proof -
  have a: "\<not> is_file world ''stt_en_conformer_ctc_large''" by (simp add: world_def)
  have b: "startswith ''stt_en_conformer_ctc_large'' ''stt_''" by (simp add: startswith_def)
  have c: "from_pretrained world ASRModel ''stt_en_conformer_ctc_large'' = Inr zoo_model"
    by (simp add: world_def)
  show ?thesis
    using stt_name_copies_encoder_only [OF a b c, of fresh_model]
    by (simp add: fresh_model_def zoo_model_def copy_matching_def encoder_state_dict_def
        state_dict_of_def)
qed

text \<open>
  Claim C8. Whenever weight resolution returns without an error, whichever branch it
  took, the freeze policy follows: with the flag true every encoder parameter has
  gradients disabled and the trace continues with the freeze call, with the flag false
  every encoder parameter has gradients enabled and the trace continues with the
  unfreeze call. The policy changes no weight.
\<close>

theorem freeze_policy_after_every_branch:
  assumes "raised (init_encoder env (cfg_pretrained_encoder_name cfg)
                     (SLUIntentSlotBPEModel env cfg)) = None"
  shows "raised (setup_model env cfg) = None
         \<and> (\<forall>p \<in> set (encoder (model_after (setup_model env cfg))).
               requires_grad p = (\<not> cfg_pretrained_encoder_freeze cfg))
         \<and> events (setup_model env cfg)
             = events (init_encoder env (cfg_pretrained_encoder_name cfg)
                         (SLUIntentSlotBPEModel env cfg))
               @ (if cfg_pretrained_encoder_freeze cfg
                  then [LogInfo ''Freezing encoder...'', EncoderFreeze]
                  else [EncoderUnfreeze])
         \<and> map param_data (encoder (model_after (setup_model env cfg)))
             = map param_data
                 (encoder (model_after (init_encoder env (cfg_pretrained_encoder_name cfg)
                                          (SLUIntentSlotBPEModel env cfg))))
         \<and> other_parameters (model_after (setup_model env cfg))
             = other_parameters
                 (model_after (init_encoder env (cfg_pretrained_encoder_name cfg)
                                 (SLUIntentSlotBPEModel env cfg)))"
  using assms
  by (auto simp: setup_model_after_init Let_def freeze_policy_def returns_def freeze_def
      unfreeze_def)

theorem freeze_policy_after_every_branch_witness:
  "raised (setup_model world (cfg_with None True None)) = None
   \<and> list_all (\<lambda>p. \<not> requires_grad p)
         (encoder (model_after (setup_model world (cfg_with None True None))))
   \<and> length (encoder (model_after (setup_model world (cfg_with None True None)))) = 1
   \<and> raised (setup_model world (cfg_with (Some ''enc.nemo'') False None)) = None
   \<and> list_all requires_grad
         (encoder (model_after (setup_model world (cfg_with (Some ''enc.nemo'') False None))))
   \<and> length (encoder (model_after (setup_model world (cfg_with (Some ''enc.nemo'') False None))))
       = 1"
proof -
  let ?c1 = "cfg_with None True None"
  let ?c2 = "cfg_with (Some ''enc.nemo'') False None"
  have a: "raised (init_encoder world (cfg_pretrained_encoder_name ?c1)
                     (SLUIntentSlotBPEModel world ?c1)) = None"
    by (simp add: cfg_with_def init_encoder_def returns_def)
  have b: "raised (init_encoder world (cfg_pretrained_encoder_name ?c2)
                     (SLUIntentSlotBPEModel world ?c2)) = None"
    by (simp add: cfg_with_def init_encoder_def Let_def load_whole_model_result returns_def
        world_def endswith_def)
  have l1: "length (encoder (model_after (setup_model world ?c1))) = 1"
    by (simp add: setup_model_def and_then_def Let_def freeze_policy_def returns_def freeze_def
        cfg_with_def init_encoder_def world_def fresh_model_def)
  have l2: "length (encoder (model_after (setup_model world ?c2))) = 1"
    by (simp add: setup_model_def and_then_def Let_def freeze_policy_def returns_def
        unfreeze_def cfg_with_def init_encoder_def load_whole_model_result world_def
        fresh_model_def endswith_def)
  have f1: "cfg_pretrained_encoder_freeze ?c1" and f2: "\<not> cfg_pretrained_encoder_freeze ?c2"
    by (simp_all add: cfg_with_def)
  show ?thesis
    using freeze_policy_after_every_branch [OF a] freeze_policy_after_every_branch [OF b]
      l1 l2 f1 f2
    by (simp add: list_all_iff)
qed

text \<open>
  Claim C9. The empty string is not the no-pretrained-source branch. The code tests the
  name against \<^verbatim>\<open>None\<close> only, so, the empty path not being an existing file, the
  run goes to the symbolic-name branch, matches neither prefix and raises the unknown
  encoder error; the result differs from the one for \<^verbatim>\<open>None\<close>.
\<close>

theorem empty_string_is_not_absent:
  assumes "\<not> is_file env []"
  shows "init_encoder env (Some []) m
           = raises (ValueError ''Unknown pretrained encoder: '') m
               [PathIsFile [], LogInfo ''Loading pretrained encoder from NGC: '']
         \<and> init_encoder env (Some []) m \<noteq> init_encoder env None m
         \<and> \<not> encoder_untouched env (Some []) m"
  using assms
  by (simp add: init_encoder_def Let_def startswith_def raises_def returns_def
      encoder_untouched_def)

theorem empty_string_is_not_absent_witness:
  "init_encoder world (Some []) fresh_model
     = raises (ValueError ''Unknown pretrained encoder: '') fresh_model
         [PathIsFile [], LogInfo ''Loading pretrained encoder from NGC: '']
   \<and> init_encoder world None fresh_model
     = returns fresh_model [LogInfo ''Not using pretrained encoder.'']"
proof -
  have a: "\<not> is_file world []" by (simp add: world_def)
  show ?thesis
    using empty_string_is_not_absent [OF a, of fresh_model]
    by (simp add: init_encoder_def)
qed

text \<open>
  Claim C10. In the raw-checkpoint branch the loaded dictionary is indexed with
  \<^verbatim>\<open>state_dict\<close> unguarded: when the entry is missing the resolver raises
  \<^verbatim>\<open>KeyError\<close>, the trace ends at the \<^verbatim>\<open>torch.load\<close> call, so no weights were
  applied, and the model is unchanged.
\<close>

theorem missing_state_dict_raises_before_load:
  assumes "is_file env name"
    and "\<not> endswith name ''.nemo''"
    and "torch_load env name = Inr ckpt"
    and "map_of ckpt ''state_dict'' = None"
  shows "raised (init_encoder env (Some name) m) = Some (KeyError ''state_dict'')
         \<and> model_after (init_encoder env (Some name) m) = m
         \<and> events (init_encoder env (Some name) m)
             = [PathIsFile name,
                LogInfo (''Loading encoder from PyTorch Lightning checkpoint: '' @ name),
                TorchLoad name]"
  using assms by (simp add: init_encoder_def Let_def raises_def)

theorem missing_state_dict_raises_before_load_witness:
  "raised (init_encoder world (Some ''bare.ckpt'') fresh_model) = Some (KeyError ''state_dict'')
   \<and> model_after (init_encoder world (Some ''bare.ckpt'') fresh_model) = fresh_model
   \<and> events (init_encoder world (Some ''bare.ckpt'') fresh_model)
       = [PathIsFile ''bare.ckpt'',
          LogInfo ''Loading encoder from PyTorch Lightning checkpoint: bare.ckpt'',
          TorchLoad ''bare.ckpt'']"
proof -
  let ?ckpt = "[(''epoch'', [])] :: checkpoint"
  have a: "is_file world ''bare.ckpt''" by (simp add: world_def)
  have b: "\<not> endswith ''bare.ckpt'' ''.nemo''" by (simp add: endswith_def)
  have c: "torch_load world ''bare.ckpt'' = Inr ?ckpt" by (simp add: world_def)
  have d: "map_of ?ckpt ''state_dict'' = None" by simp
  show ?thesis
    using missing_state_dict_raises_before_load [OF a b c d, of fresh_model] by simp
qed

end
